theory Spec2Isabelle
  imports Main
begin

section \<open>The timetable component: data model\<close>

text \<open>
  The component \<^verbatim>\<open>Timetable\<close> of \<^verbatim>\<open>src/timetable/src/components/Timetable.jsx\<close> receives
  \<^verbatim>\<open>data\<close>, an object mapping a group number to an object mapping a course name to an
  array of sessions. For each group it fills a day-by-slot array of cells and renders it.

  A session carries \<^verbatim>\<open>course_type\<close>, \<^verbatim>\<open>day\<close>, \<^verbatim>\<open>slot\<close> and \<^verbatim>\<open>teacher_id\<close>. The
  numbers are integers of the payload; they are modelled as unbounded \<open>int\<close>, on which
  \<^verbatim>\<open>day - 1\<close> and the comparisons of the source are exact.
\<close>

record session =
  course_type :: string
  day :: int
  slot :: int
  teacher_id :: int

text \<open>The object literal written into a cell (lines 26 to 30).\<close>

record cell =
  courseName :: string
  courseType :: string
  teacherId :: int

text \<open>
  The properties of that object as a program reads them: \<^verbatim>\<open>Object.keys(cell)\<close> and
  \<^verbatim>\<open>cell[name]\<close>, which is \<^verbatim>\<open>undefined\<close> (\<open>None\<close>) for any name the literal does not
  set.
\<close>

datatype js_value = JString string | JNumber int

definition cell_keys :: "cell \<Rightarrow> string list" where
  "cell_keys c = [''courseName'', ''courseType'', ''teacherId'']"

definition cell_get :: "cell \<Rightarrow> string \<Rightarrow> js_value option" where
  "cell_get c name =
     (if name = ''courseName'' then Some (JString (courseName c))
      else if name = ''courseType'' then Some (JString (courseType c))
      else if name = ''teacherId'' then Some (JNumber (teacherId c))
      else None)"

text \<open>
  A cell of the array is \<^verbatim>\<open>null\<close> (\<open>None\<close>) or one cell object. The rows are built by
  \<^verbatim>\<open>.map(() => Array(n).fill(null))\<close>, one fresh array per row, so no two rows share
  storage and a list of lists is a faithful picture of the array of arrays.
\<close>

type_synonym timetable = "cell option list list"

text \<open>
  A JavaScript object is modelled by the list of its own string-keyed properties in the
  order of their creation. An object has no two properties of one name.
\<close>

type_synonym 'v js_object = "(string \<times> 'v) list"

definition wf_object :: "'v js_object \<Rightarrow> bool" where
  "wf_object obj = distinct (map fst obj)"

type_synonym group_courses = "session list js_object"
type_synonym schedule_data = "group_courses js_object"

datatype js_error = TypeError

section \<open>Enumeration of an object: \<^verbatim>\<open>Object.entries\<close>\<close>

text \<open>
  \<^verbatim>\<open>Object.entries\<close> lists the own enumerable string-keyed properties in the order of
  the language's own-property-keys operation: first the keys that are array indices, in
  ascending numeric order, then every other string key in order of creation. An array
  index is a canonical numeric string (the decimal digits of a number, no leading zero
  unless the string is \<^verbatim>\<open>"0"\<close>) whose value is at most \<open>2^32 - 2\<close>.
\<close>

definition is_digit :: "char \<Rightarrow> bool" where
  "is_digit c = (c \<in> set ''0123456789'')"

definition digit_val :: "char \<Rightarrow> nat" where
  "digit_val c = length (takeWhile (\<lambda>d. d \<noteq> c) ''0123456789'')"

definition dec_val :: "string \<Rightarrow> int" where
  "dec_val s = foldl (\<lambda>n c. 10 * n + int (digit_val c)) 0 s"

definition is_array_index :: "string \<Rightarrow> bool" where
  "is_array_index s =
     (s \<noteq> [] \<and> list_all is_digit s \<and> (s = ''0'' \<or> hd s \<noteq> CHR ''0'') \<and>
      dec_val s \<le> 4294967294)"

definition object_entries :: "'v js_object \<Rightarrow> (string \<times> 'v) list" where
  "object_entries obj =
     sort_key (\<lambda>kv. dec_val (fst kv)) (filter (\<lambda>kv. is_array_index (fst kv)) obj) @
     filter (\<lambda>kv. \<not> is_array_index (fst kv)) obj"

section \<open>Grid construction (lines 5 to 33)\<close>

definition days :: "string list" where
  "days = [''Sunday'', ''Monday'', ''Tuesday'', ''Wednesday'', ''Thursday'']"

definition timeSlots :: "string list" where
  "timeSlots = [''8:30-10:00'', ''10:10-11:40'', ''11:45-13:15'', ''13:20-14:50'', ''15:00-16:30'']"

text \<open>Line 16: \<^verbatim>\<open>Array(days.length).fill().map(() => Array(timeSlots.length).fill(null))\<close>.\<close>

definition empty_timetable :: timetable where
  "empty_timetable = replicate (length days) (replicate (length timeSlots) None)"

text \<open>
  The assignment \<^verbatim>\<open>timetable[dayIndex][slotIndex] = v\<close> on integer indices. When
  \<^verbatim>\<open>timetable[dayIndex]\<close> is not an element of the outer array it is \<^verbatim>\<open>undefined\<close> and
  the assignment throws a \<^verbatim>\<open>TypeError\<close>. On an existing row, a negative column sets a
  property that is not an element (the elements stay as they are), a column past the
  end extends the row with holes, which read as \<^verbatim>\<open>undefined\<close> and render like
  \<^verbatim>\<open>null\<close>, and a column inside the row overwrites that element.
\<close>

definition set_cell :: "timetable \<Rightarrow> int \<Rightarrow> int \<Rightarrow> cell \<Rightarrow> js_error + timetable" where
  "set_cell tt dayIndex slotIndex v =
     (if dayIndex < 0 \<or> int (length tt) \<le> dayIndex then Inl TypeError
      else let d = nat dayIndex; row = tt ! d in
        if slotIndex < 0 then Inr tt
        else let s = nat slotIndex in
          if length row \<le> s
          then Inr (tt[d := row @ replicate (s - length row) None @ [Some v]])
          else Inr (tt[d := row[s := Some v]]))"

text \<open>The body of the inner \<^verbatim>\<open>forEach\<close> (lines 21 to 31).\<close>

definition place_session :: "string \<Rightarrow> timetable \<Rightarrow> session \<Rightarrow> js_error + timetable" where
  "place_session cn tt sess =
     (let dayIndex = day sess - 1;
          slotIndex = slot sess - 1
      in if dayIndex \<ge> 0 \<and> dayIndex < int (length days) \<and>
            slotIndex \<ge> 0 \<and> slotIndex < int (length timeSlots)
         then set_cell tt dayIndex slotIndex
                \<lparr>courseName = cn, courseType = course_type sess, teacherId = teacher_id sess\<rparr>
         else Inr tt)"

text \<open>\<^verbatim>\<open>sessions.forEach(...)\<close> (line 20): in list order; a throw ends the loop.\<close>

fun forEach_sessions :: "string \<Rightarrow> timetable \<Rightarrow> session list \<Rightarrow> js_error + timetable" where
  "forEach_sessions cn tt [] = Inr tt"
| "forEach_sessions cn tt (sess # rest) =
     (case place_session cn tt sess of
        Inl e \<Rightarrow> Inl e
      | Inr tt' \<Rightarrow> forEach_sessions cn tt' rest)"

text \<open>\<^verbatim>\<open>Object.entries(groupCourses).forEach(...)\<close> (line 19), over the entries.\<close>

fun forEach_courses :: "timetable \<Rightarrow> (string \<times> session list) list \<Rightarrow> js_error + timetable" where
  "forEach_courses tt [] = Inr tt"
| "forEach_courses tt ((cn, sessions) # rest) =
     (case forEach_sessions cn tt sessions of
        Inl e \<Rightarrow> Inl e
      | Inr tt' \<Rightarrow> forEach_courses tt' rest)"

text \<open>The grid of one group (lines 16 to 33).\<close>

definition group_timetable :: "group_courses \<Rightarrow> js_error + timetable" where
  "group_timetable groupCourses = forEach_courses empty_timetable (object_entries groupCourses)"

text \<open>\<^verbatim>\<open>Object.entries(data).map(...)\<close> (line 14): one grid per entry, in entry order.\<close>

fun map_groups :: "(string \<times> group_courses) list \<Rightarrow> js_error + (string \<times> timetable) list" where
  "map_groups [] = Inr []"
| "map_groups ((groupNumber, groupCourses) # rest) =
     (case group_timetable groupCourses of
        Inl e \<Rightarrow> Inl e
      | Inr tt \<Rightarrow> (case map_groups rest of
                     Inl e \<Rightarrow> Inl e
                   | Inr out \<Rightarrow> Inr ((groupNumber, tt) # out)))"

definition build :: "schedule_data \<Rightarrow> js_error + (string \<times> timetable) list" where
  "build data = map_groups (object_entries data)"

section \<open>The sub-type label (line 58)\<close>

text \<open>
  \<^verbatim>\<open>str.split('_')\<close> cuts the string at every underscore; the empty string gives one
  empty piece. Strings are byte lists here; the underscore is one byte that occurs in
  no multi-byte character, so cutting bytes and cutting characters agree.
\<close>

fun split_on :: "char \<Rightarrow> string \<Rightarrow> string list" where
  "split_on sep [] = [[]]"
| "split_on sep (c # cs) =
     (if c = sep then [] # split_on sep cs
      else (case split_on sep cs of
              [] \<Rightarrow> [[c]]
            | w # ws \<Rightarrow> (c # w) # ws))"

text \<open>Reading an array element: \<^verbatim>\<open>undefined\<close> past the end.\<close>

definition element_at :: "'a list \<Rightarrow> nat \<Rightarrow> 'a option" where
  "element_at xs i = (if i < length xs then Some (xs ! i) else None)"

text \<open>\<^verbatim>\<open>cell.courseType.split('_')[1]\<close>.\<close>

definition subType :: "string \<Rightarrow> string option" where
  "subType ct = element_at (split_on (CHR ''_'') ct) 1"

text \<open>
  The text of \<^verbatim>\<open><div className="course-type">{...}</div>\<close>: a child that is
  \<^verbatim>\<open>undefined\<close> renders nothing, a string renders as itself.
\<close>

definition subType_text :: "string \<Rightarrow> string" where
  "subType_text ct = (case subType ct of None \<Rightarrow> [] | Some s \<Rightarrow> s)"

text \<open>
  The label as the specification words it: the part of \<open>course_type\<close> after its first
  underscore, empty when there is no underscore.
\<close>

definition after_first_underscore :: "string \<Rightarrow> string" where
  "after_first_underscore ct = drop 1 (dropWhile (\<lambda>c. c \<noteq> CHR ''_'') ct)"

section \<open>The construction with the rows as objects in a store\<close>

text \<open>
  In the running program an array is an object: it has an identity and it stays in
  memory after the render that created it. To say what a later render finds and leaves
  behind, the row arrays are placed in a store, a list of rows in which the address of a
  row is its index, and every operation takes the store and returns the new one. A
  timetable is then the list of the addresses of its rows; that outer array is never
  assigned to after line 16.
\<close>

type_synonym addr = nat
type_synonym store = "cell option list list"
type_synonym timetable_ref = "addr list"

text \<open>
  Line 16 in the store: one new row of \<^verbatim>\<open>null\<close>s per day, each at the next free address.
\<close>

definition new_timetable :: "store \<Rightarrow> timetable_ref \<times> store" where
  "new_timetable st =
     ([length st ..< length st + length days],
      st @ replicate (length days) (replicate (length timeSlots) None))"

text \<open>
  \<^verbatim>\<open>timetable[dayIndex][slotIndex] = v\<close> in the store, with the branches of \<open>set_cell\<close>: the
  row written is the one whose address the outer array holds at \<^verbatim>\<open>dayIndex\<close>. The
  addresses in a timetable come from \<open>new_timetable\<close>, so they are below the length of the
  store (lemma \<open>place_session_st_put\<close> carries this along).
\<close>

definition store_cell :: "store \<Rightarrow> timetable_ref \<Rightarrow> int \<Rightarrow> int \<Rightarrow> cell \<Rightarrow> js_error + store" where
  "store_cell st tt dayIndex slotIndex v =
     (if dayIndex < 0 \<or> int (length tt) \<le> dayIndex then Inl TypeError
      else let a = tt ! nat dayIndex; row = st ! a in
        if slotIndex < 0 then Inr st
        else let s = nat slotIndex in
          if length row \<le> s
          then Inr (st[a := row @ replicate (s - length row) None @ [Some v]])
          else Inr (st[a := row[s := Some v]]))"

definition place_session_st :: "string \<Rightarrow> timetable_ref \<Rightarrow> store \<Rightarrow> session \<Rightarrow> js_error + store" where
  "place_session_st cn tt st sess =
     (let dayIndex = day sess - 1;
          slotIndex = slot sess - 1
      in if dayIndex \<ge> 0 \<and> dayIndex < int (length days) \<and>
            slotIndex \<ge> 0 \<and> slotIndex < int (length timeSlots)
         then store_cell st tt dayIndex slotIndex
                \<lparr>courseName = cn, courseType = course_type sess, teacherId = teacher_id sess\<rparr>
         else Inr st)"

fun forEach_sessions_st ::
  "string \<Rightarrow> timetable_ref \<Rightarrow> store \<Rightarrow> session list \<Rightarrow> js_error + store" where
  "forEach_sessions_st cn tt st [] = Inr st"
| "forEach_sessions_st cn tt st (sess # rest) =
     (case place_session_st cn tt st sess of
        Inl e \<Rightarrow> Inl e
      | Inr st' \<Rightarrow> forEach_sessions_st cn tt st' rest)"

fun forEach_courses_st ::
  "timetable_ref \<Rightarrow> store \<Rightarrow> (string \<times> session list) list \<Rightarrow> js_error + store" where
  "forEach_courses_st tt st [] = Inr st"
| "forEach_courses_st tt st ((cn, sessions) # rest) =
     (case forEach_sessions_st cn tt st sessions of
        Inl e \<Rightarrow> Inl e
      | Inr st' \<Rightarrow> forEach_courses_st tt st' rest)"

definition group_timetable_st :: "store \<Rightarrow> group_courses \<Rightarrow> js_error + (timetable_ref \<times> store)" where
  "group_timetable_st st groupCourses =
     (case new_timetable st of
        (tt, st0) \<Rightarrow>
          (case forEach_courses_st tt st0 (object_entries groupCourses) of
             Inl e \<Rightarrow> Inl e
           | Inr st' \<Rightarrow> Inr (tt, st')))"

fun map_groups_st ::
  "store \<Rightarrow> (string \<times> group_courses) list \<Rightarrow> js_error + ((string \<times> timetable_ref) list \<times> store)" where
  "map_groups_st st [] = Inr ([], st)"
| "map_groups_st st ((groupNumber, groupCourses) # rest) =
     (case group_timetable_st st groupCourses of
        Inl e \<Rightarrow> Inl e
      | Inr (tt, st') \<Rightarrow>
          (case map_groups_st st' rest of
             Inl e \<Rightarrow> Inl e
           | Inr (out, st'') \<Rightarrow> Inr ((groupNumber, tt) # out, st'')))"

text \<open>One render of the component, from the store it finds to the store it leaves.\<close>

definition build_st :: "store \<Rightarrow> schedule_data \<Rightarrow> js_error + ((string \<times> timetable_ref) list \<times> store)" where
  "build_st st data = map_groups_st st (object_entries data)"

text \<open>
  Reading the cells of a timetable out of a store, as line 52 does with
  \<^verbatim>\<open>timetable[dayIndex][slotIndex]\<close>, and the same for every group of an output.
\<close>

definition read_timetable :: "store \<Rightarrow> timetable_ref \<Rightarrow> timetable" where
  "read_timetable st tt = map (\<lambda>a. st ! a) tt"

definition read_grids :: "store \<Rightarrow> (string \<times> timetable_ref) list \<Rightarrow> (string \<times> timetable) list" where
  "read_grids st out = map (\<lambda>e. (fst e, read_timetable st (snd e))) out"

section \<open>Notions used to state and prove the properties\<close>

text \<open>
  A session is in range when the guard of lines 24 and 25 lets it through, that is when
  \<open>1 \<le> day \<le> days.length\<close> and \<open>1 \<le> slot \<le> timeSlots.length\<close>.
\<close>

definition in_range :: "session \<Rightarrow> bool" where
  "in_range sess =
     (1 \<le> day sess \<and> day sess \<le> int (length days) \<and>
      1 \<le> slot sess \<and> slot sess \<le> int (length timeSlots))"

text \<open>The cell object that lines 26 to 30 build from a course name and a session.\<close>

definition cell_of :: "string \<Rightarrow> session \<Rightarrow> cell" where
  "cell_of cn sess = \<lparr>courseName = cn, courseType = course_type sess, teacherId = teacher_id sess\<rparr>"

text \<open>The shape the grid has at line 16: one row per day, one column per time slot.\<close>

definition wf_timetable :: "timetable \<Rightarrow> bool" where
  "wf_timetable tt =
     (length tt = length days \<and> list_all (\<lambda>row. length row = length timeSlots) tt)"

text \<open>
  What one pass of the loop body does to a grid of that shape, as a function without
  errors: \<open>place_session_put\<close> below proves that \<open>place_session\<close> returns exactly this.
\<close>

definition put :: "timetable \<Rightarrow> string \<times> session \<Rightarrow> timetable" where
  "put tt p =
     (if in_range (snd p)
      then tt[nat (day (snd p) - 1) :=
                (tt ! nat (day (snd p) - 1))[nat (slot (snd p) - 1) := Some (cell_of (fst p) (snd p))]]
      else tt)"

text \<open>
  The sessions in the order the two nested loops visit them, each with the name of its
  course: entry after entry, and within an entry in list order.
\<close>

definition process_order :: "(string \<times> session list) list \<Rightarrow> (string \<times> session) list" where
  "process_order entries = concat (map (\<lambda>e. map (Pair (fst e)) (snd e)) entries)"

text \<open>
  The grid of a group as a fold; \<open>group_timetable_eq\<close> below proves that
  \<open>group_timetable\<close> returns it.
\<close>

definition group_grid :: "group_courses \<Rightarrow> timetable" where
  "group_grid groupCourses = foldl put empty_timetable (process_order (object_entries groupCourses))"

text \<open>A session maps to position \<open>(d, s)\<close>: \<open>dayIndex = d\<close> and \<open>slotIndex = s\<close>.\<close>

definition lands_on :: "nat \<Rightarrow> nat \<Rightarrow> string \<times> session \<Rightarrow> bool" where
  "lands_on d s p = (day (snd p) - 1 = int d \<and> slot (snd p) - 1 = int s)"

text \<open>
  A store holds the grid \<open>g\<close> at the timetable \<open>tt\<close>: the rows at the addresses of \<open>tt\<close> are
  the rows of \<open>g\<close>, no two of the addresses are equal, and all are allocated.
\<close>

definition holds :: "store \<Rightarrow> timetable_ref \<Rightarrow> timetable \<Rightarrow> bool" where
  "holds st tt g =
     (read_timetable st tt = g \<and> distinct tt \<and> list_all (\<lambda>a. a < length st) tt)"

text \<open>
  The payload with every out-of-range session removed from every course of every group.
\<close>

definition drop_out_of_range :: "schedule_data \<Rightarrow> schedule_data" where
  "drop_out_of_range data =
     map (\<lambda>g. (fst g, map (\<lambda>c. (fst c, filter in_range (snd c))) (snd g))) data"

section \<open>The loops as a fold\<close>

lemma wf_empty_timetable: "wf_timetable empty_timetable"
  by (simp add: wf_timetable_def empty_timetable_def list_all_iff)

lemma wf_put: "wf_timetable tt \<Longrightarrow> wf_timetable (put tt p)"
  unfolding wf_timetable_def put_def list_all_iff
  by (auto dest!: set_update_subset_insert [THEN subsetD] simp: in_range_def)

lemma wf_foldl_put: "wf_timetable tt \<Longrightarrow> wf_timetable (foldl put tt ps)"
  by (induction ps arbitrary: tt) (simp_all add: wf_put)

lemma place_session_put:
  assumes "wf_timetable tt"
  shows "place_session cn tt sess = Inr (put tt (cn, sess))"
proof (cases "in_range sess")
  case False
  then show ?thesis
    by (auto simp: place_session_def put_def in_range_def Let_def)
next
  case True
  let ?d = "nat (day sess - 1)"
  from True assms have d: "?d < length tt"
    unfolding in_range_def wf_timetable_def by linarith
  with assms have row: "length (tt ! ?d) = length timeSlots"
    by (simp add: wf_timetable_def list_all_length)
  from True have s: "nat (slot sess - 1) < length timeSlots"
    unfolding in_range_def by linarith
  from True have guard: "day sess - 1 \<ge> 0" "day sess - 1 < int (length days)"
    "slot sess - 1 \<ge> 0" "slot sess - 1 < int (length timeSlots)"
    unfolding in_range_def by linarith+
  from d have notype: "\<not> (day sess - 1 < 0 \<or> int (length tt) \<le> day sess - 1)"
    using guard(1) by linarith
  have "place_session cn tt sess = set_cell tt (day sess - 1) (slot sess - 1) (cell_of cn sess)"
    using guard by (simp add: place_session_def Let_def cell_of_def)
  also have "\<dots> = Inr (tt[?d := (tt ! ?d)[nat (slot sess - 1) := Some (cell_of cn sess)]])"
    using notype guard(3) s row by (simp add: set_cell_def Let_def)
  also have "\<dots> = Inr (put tt (cn, sess))"
    using True by (simp add: put_def)
  finally show ?thesis .
qed

lemma forEach_sessions_fold:
  "wf_timetable tt \<Longrightarrow> forEach_sessions cn tt ss = Inr (foldl put tt (map (Pair cn) ss))"
  by (induction ss arbitrary: tt) (simp_all add: place_session_put wf_put)

lemma forEach_courses_fold:
  "wf_timetable tt \<Longrightarrow> forEach_courses tt es = Inr (foldl put tt (process_order es))"
proof (induction es arbitrary: tt)
  case Nil
  then show ?case by (simp add: process_order_def)
next
  case (Cons e es)
  obtain cn ss where e: "e = (cn, ss)" by (cases e)
  from Cons.prems have "wf_timetable (foldl put tt (map (Pair cn) ss))"
    by (rule wf_foldl_put)
  from Cons.IH [OF this] Cons.prems show ?case
    by (simp add: e forEach_sessions_fold process_order_def)
qed

lemma group_timetable_eq: "group_timetable gc = Inr (group_grid gc)"
  by (simp add: group_timetable_def group_grid_def forEach_courses_fold wf_empty_timetable)

lemma map_groups_eq: "map_groups es = Inr (map (\<lambda>e. (fst e, group_grid (snd e))) es)"
  by (induction es) (auto simp: group_timetable_eq)

lemma build_eq: "build data = Inr (map (\<lambda>e. (fst e, group_grid (snd e))) (object_entries data))"
  by (simp add: build_def map_groups_eq)

lemma wf_group_grid: "wf_timetable (group_grid gc)"
  by (simp add: group_grid_def wf_foldl_put wf_empty_timetable)

section \<open>What a cell holds after the loops\<close>

lemma put_cell:
  assumes "wf_timetable tt" "d < length days" "s < length timeSlots"
  shows "put tt p ! d ! s = (if lands_on d s p then Some (cell_of (fst p) (snd p)) else tt ! d ! s)"
proof (cases "in_range (snd p)")
  case False
  with assms(2,3) have "\<not> lands_on d s p"
    unfolding in_range_def lands_on_def by linarith
  with False show ?thesis by (simp add: put_def)
next
  case True
  let ?d = "nat (day (snd p) - 1)" and ?s = "nat (slot (snd p) - 1)"
  from True have d': "?d < length tt" and s': "?s < length timeSlots"
    using assms(1) unfolding in_range_def wf_timetable_def by linarith+
  from assms have len: "length tt = length days" and row: "\<And>i. i < length tt \<Longrightarrow> length (tt ! i) = length timeSlots"
    by (simp_all add: wf_timetable_def list_all_length)
  from True have iff: "lands_on d s p \<longleftrightarrow> ?d = d \<and> ?s = s"
    unfolding in_range_def lands_on_def by linarith
  show ?thesis
  proof (cases "?d = d")
    case False
    with True iff show ?thesis by (simp add: put_def)
  next
    case dd: True
    show ?thesis
    proof (cases "?s = s")
      case False
      with True iff dd d' show ?thesis by (simp add: put_def)
    next
      case ss: True
      with True iff dd d' s' row [OF d'] show ?thesis by (simp add: put_def)
    qed
  qed
qed

lemma foldl_put_cell:
  assumes "wf_timetable tt" "d < length days" "s < length timeSlots"
  shows "foldl put tt ps ! d ! s =
         (if filter (lands_on d s) ps = [] then tt ! d ! s
          else Some (cell_of (fst (last (filter (lands_on d s) ps)))
                             (snd (last (filter (lands_on d s) ps)))))"
proof (induction ps rule: rev_induct)
  case Nil
  show ?case by simp
next
  case (snoc p ps)
  have "wf_timetable (foldl put tt ps)" using assms(1) by (rule wf_foldl_put)
  from put_cell [OF this assms(2,3)] snoc show ?case by simp
qed

lemma empty_timetable_cell:
  "d < length days \<Longrightarrow> s < length timeSlots \<Longrightarrow> empty_timetable ! d ! s = None"
  by (simp add: empty_timetable_def)

lemma group_grid_cell:
  assumes "d < length days" "s < length timeSlots"
  shows "group_grid gc ! d ! s =
         (if filter (lands_on d s) (process_order (object_entries gc)) = [] then None
          else Some (cell_of (fst (last (filter (lands_on d s) (process_order (object_entries gc)))))
                             (snd (last (filter (lands_on d s) (process_order (object_entries gc)))))))"
  unfolding group_grid_def
  by (simp only: foldl_put_cell [OF wf_empty_timetable assms] empty_timetable_cell [OF assms])

lemma put_out_of_range: "\<not> in_range (snd p) \<Longrightarrow> put tt p = tt"
  by (simp add: put_def)

lemma foldl_put_filter: "foldl put tt (filter (\<lambda>p. in_range (snd p)) ps) = foldl put tt ps"
  by (induction ps arbitrary: tt) (simp_all add: put_out_of_range)

lemma foldl_put_none_in_range:
  "\<forall>p\<in>set ps. \<not> in_range (snd p) \<Longrightarrow> foldl put tt ps = tt"
  by (induction ps arbitrary: tt) (simp_all add: put_out_of_range)

lemma set_process_order:
  "set (process_order es) = {(cn, sess). \<exists>ss. (cn, ss) \<in> set es \<and> sess \<in> set ss}"
  by (auto simp: process_order_def)

section \<open>Properties of the enumeration\<close>

lemma set_object_entries: "set (object_entries obj) = set obj"
  by (auto simp: object_entries_def)

lemma length_object_entries: "length (object_entries obj) = length obj"
  by (simp add: object_entries_def sum_length_filter_compl)

lemma distinct_keys_sort_key:
  "distinct (map fst (sort_key f xs)) = distinct (map fst xs)"
  by (simp add: distinct_map)

lemma wf_object_entries: "wf_object obj \<Longrightarrow> distinct (map fst (object_entries obj))"
  unfolding wf_object_def object_entries_def
  by (auto simp: distinct_keys_sort_key distinct_map_filter)

lemma object_entries_no_index:
  "\<forall>kv\<in>set obj. \<not> is_array_index (fst kv) \<Longrightarrow> object_entries obj = obj"
  by (simp add: object_entries_def filter_empty_conv [THEN iffD2])

lemma insort_key_map_values:
  "insort_key (\<lambda>kv. f (fst kv)) (fst x, h (snd x)) (map (\<lambda>kv. (fst kv, h (snd kv))) xs) =
   map (\<lambda>kv. (fst kv, h (snd kv))) (insort_key (\<lambda>kv. f (fst kv)) x xs)"
  by (induction xs) simp_all

lemma sort_key_map_values:
  "sort_key (\<lambda>kv. f (fst kv)) (map (\<lambda>kv. (fst kv, h (snd kv))) xs) =
   map (\<lambda>kv. (fst kv, h (snd kv))) (sort_key (\<lambda>kv. f (fst kv)) xs)"
  by (induction xs) (simp_all add: insort_key_map_values)

lemma object_entries_map_values:
  "object_entries (map (\<lambda>kv. (fst kv, h (snd kv))) obj) =
   map (\<lambda>kv. (fst kv, h (snd kv))) (object_entries obj)"
  by (simp add: object_entries_def filter_map o_def sort_key_map_values)

lemma map_fst_insort_key:
  "map fst (insort_key (\<lambda>kv. f (fst kv)) x xs) = insort_key f (fst x) (map fst xs)"
  by (induction xs) simp_all

lemma map_fst_sort_key:
  "map fst (sort_key (\<lambda>kv. f (fst kv)) xs) = sort_key f (map fst xs)"
  by (induction xs) (simp_all add: map_fst_insort_key)

lemma keys_object_entries:
  "map fst (object_entries obj) =
   sort_key dec_val (filter is_array_index (map fst obj)) @
   filter (\<lambda>k. \<not> is_array_index k) (map fst obj)"
  by (simp add: object_entries_def map_fst_sort_key filter_map o_def)

section \<open>Looking a group up in the output\<close>

lemma build_lookup:
  assumes "wf_object data" "(g, gc) \<in> set data"
  shows "\<exists>out. build data = Inr out \<and> map_of out g = Some (group_grid gc)"
proof -
  from assms have "map_of (object_entries data) g = Some gc"
    by (simp add: wf_object_entries set_object_entries)
  then show ?thesis
    by (simp add: build_eq map_of_map [unfolded case_prod_beta] o_def)
qed

section \<open>Sessions outside the calendar\<close>

lemma length_days: "length days = 5"
  by (simp add: days_def)

lemma length_timeSlots: "length timeSlots = 5"
  by (simp add: timeSlots_def)

lemma process_order_filter:
  "process_order (map (\<lambda>c. (fst c, filter in_range (snd c))) es) =
   filter (\<lambda>p. in_range (snd p)) (process_order es)"
  by (induction es) (simp_all add: process_order_def filter_map o_def)

lemma group_grid_drop:
  "group_grid (map (\<lambda>c. (fst c, filter in_range (snd c))) gc) = group_grid gc"
  by (simp add: group_grid_def object_entries_map_values process_order_filter foldl_put_filter)

lemma build_drop_out_of_range: "build (drop_out_of_range data) = build data"
  by (simp add: build_eq drop_out_of_range_def object_entries_map_values o_def group_grid_drop)

lemma place_session_out_of_range:
  "\<not> in_range sess \<Longrightarrow> place_session cn tt sess = Inr tt"
  by (auto simp: in_range_def place_session_def Let_def)

text \<open>Facts for evaluating the definitions on literal payloads.\<close>

lemmas enum_defs = object_entries_def is_array_index_def is_digit_def dec_val_def digit_val_def
lemmas grid_defs = build_def group_timetable_def empty_timetable_def days_def timeSlots_def
  place_session_def set_cell_def Let_def

section \<open>Cutting a string at underscores\<close>

lemma split_on_first:
  "split_on sep ct =
     takeWhile (\<lambda>c. c \<noteq> sep) ct #
     (if sep \<in> set ct then split_on sep (drop 1 (dropWhile (\<lambda>c. c \<noteq> sep) ct)) else [])"
  by (induction ct) auto

lemma split_on_not_Nil: "split_on sep ct \<noteq> []"
  by (subst split_on_first) simp

lemma hd_split_on: "hd (split_on sep ct) = takeWhile (\<lambda>c. c \<noteq> sep) ct"
  by (subst split_on_first) simp

lemma subType_eq:
  "subType ct =
     (if CHR ''_'' \<in> set ct
      then Some (takeWhile (\<lambda>c. c \<noteq> CHR ''_'') (after_first_underscore ct)) else None)"
proof (cases "CHR ''_'' \<in> set ct")
  case False
  then show ?thesis
    by (subst subType_def, subst split_on_first) (simp add: element_at_def)
next
  case True
  let ?rest = "split_on (CHR ''_'') (after_first_underscore ct)"
  have cut: "split_on (CHR ''_'') ct = takeWhile (\<lambda>c. c \<noteq> CHR ''_'') ct # ?rest"
    using True by (subst split_on_first) (simp add: after_first_underscore_def)
  have "?rest \<noteq> []" by (rule split_on_not_Nil)
  then have "0 < length ?rest" and "?rest ! 0 = hd ?rest"
    by (simp_all add: hd_conv_nth)
  with True show ?thesis
    by (simp add: subType_def element_at_def cut hd_split_on)
qed

lemma subType_text_eq:
  "subType_text ct = takeWhile (\<lambda>c. c \<noteq> CHR ''_'') (after_first_underscore ct)"
proof (cases "CHR ''_'' \<in> set ct")
  case True
  then show ?thesis by (simp add: subType_text_def subType_eq)
next
  case False
  then have dw: "dropWhile (\<lambda>c. c \<noteq> CHR ''_'') ct = []" by auto
  from False show ?thesis by (simp add: subType_text_def subType_eq after_first_underscore_def dw)
qed

lemma count_list_first:
  "count_list ct sep =
     (if sep \<in> set ct then 1 + count_list (drop 1 (dropWhile (\<lambda>c. c \<noteq> sep) ct)) sep else 0)"
  by (induction ct) auto

lemma one_underscore_rest:
  assumes "count_list ct (CHR ''_'') = 1"
  shows "CHR ''_'' \<in> set ct" and "CHR ''_'' \<notin> set (after_first_underscore ct)"
proof -
  show mem: "CHR ''_'' \<in> set ct"
    using assms count_list_0_iff [of ct "CHR ''_''"] by auto
  from assms mem have "count_list (after_first_underscore ct) (CHR ''_'') = 0"
    by (subst (asm) count_list_first) (simp add: after_first_underscore_def)
  then show "CHR ''_'' \<notin> set (after_first_underscore ct)"
    by (simp add: count_list_0_iff)
qed

section \<open>Shape of a grid and groups without sessions in range\<close>

lemma keys_build_set: "set (map fst (object_entries data)) = set (map fst data)"
  by (simp add: set_object_entries)

lemma group_grid_all_out_of_range:
  assumes "\<forall>c\<in>set gc. \<forall>sess\<in>set (snd c). \<not> in_range sess"
  shows "group_grid gc = empty_timetable"
proof -
  from assms have "\<forall>p\<in>set (process_order (object_entries gc)). \<not> in_range (snd p)"
    by (auto simp: set_process_order set_object_entries)
  then show ?thesis
    by (simp add: group_grid_def foldl_put_none_in_range)
qed

lemma empty_timetable_literal: "empty_timetable = replicate 5 (replicate 5 None)"
  by (simp add: empty_timetable_def length_days length_timeSlots)

lemma cell_none_or_one: "(x :: cell option) = None \<or> (\<exists>!c. x = Some c)"
  by (cases x) simp_all

lemma group_grid_shape:
  "length (group_grid gc) = 5 \<and> (\<forall>row\<in>set (group_grid gc). length row = 5)"
  using wf_group_grid [of gc]
  by (simp add: wf_timetable_def list_all_iff length_days length_timeSlots)

section \<open>The store construction computes the grids of \<open>build\<close>\<close>

lemma place_session_st_put:
  assumes h: "holds st tt g" and wf: "wf_timetable g"
  shows "\<exists>st'. place_session_st cn tt st sess = Inr st' \<and> holds st' tt (put g (cn, sess)) \<and>
           length st' = length st \<and> (\<forall>a. a \<notin> set tt \<longrightarrow> st' ! a = st ! a)"
proof (cases "in_range sess")
  case False
  then have "place_session_st cn tt st sess = Inr st"
    by (auto simp: in_range_def place_session_st_def Let_def)
  with False h show ?thesis by (simp add: put_def)
next
  case True
  let ?d = "nat (day sess - 1)" and ?s = "nat (slot sess - 1)"
  let ?v = "cell_of cn sess"
  from h have read: "map (\<lambda>a. st ! a) tt = g" and dist: "distinct tt"
    and alloc: "\<forall>a\<in>set tt. a < length st"
    by (simp_all add: holds_def read_timetable_def list_all_iff)
  from read have len: "length tt = length g" by auto
  from wf have glen: "length g = length days"
    and rows: "\<And>i. i < length g \<Longrightarrow> length (g ! i) = length timeSlots"
    by (simp_all add: wf_timetable_def list_all_length)
  from True have guard: "day sess - 1 \<ge> 0" "day sess - 1 < int (length days)"
    "slot sess - 1 \<ge> 0" "slot sess - 1 < int (length timeSlots)"
    unfolding in_range_def by linarith+
  from guard have d: "?d < length tt" and s: "?s < length timeSlots"
    unfolding len glen by linarith+
  let ?a = "tt ! ?d"
  from d alloc have a: "?a < length st" by simp
  from d read have row: "st ! ?a = g ! ?d"
    by (metis nth_map)
  with d rows len have rowlen: "length (st ! ?a) = length timeSlots" by simp
  let ?st' = "st[?a := (st ! ?a)[?s := Some ?v]]"
  from d have notype: "\<not> (day sess - 1 < 0 \<or> int (length tt) \<le> day sess - 1)"
    using guard(1) by linarith
  have "place_session_st cn tt st sess = store_cell st tt (day sess - 1) (slot sess - 1) ?v"
    using guard by (simp add: place_session_st_def Let_def cell_of_def)
  also have "\<dots> = Inr ?st'"
    using notype guard(3) s rowlen by (simp add: store_cell_def Let_def)
  finally have run: "place_session_st cn tt st sess = Inr ?st'" .
  have "map (\<lambda>x. ?st' ! x) tt = g[?d := (g ! ?d)[?s := Some ?v]]"
  proof (rule nth_equalityI)
    show "length (map (\<lambda>x. ?st' ! x) tt) = length (g[?d := (g ! ?d)[?s := Some ?v]])"
      by (simp add: len)
  next
    fix i assume "i < length (map (\<lambda>x. ?st' ! x) tt)"
    then have i: "i < length tt" by simp
    show "map (\<lambda>x. ?st' ! x) tt ! i = g[?d := (g ! ?d)[?s := Some ?v]] ! i"
    proof (cases "i = ?d")
      case True
      with i a row len show ?thesis by simp
    next
      case False
      with i d dist have "tt ! i \<noteq> ?a" by (simp add: nth_eq_iff_index_eq)
      moreover from i read have "st ! (tt ! i) = g ! i" by (metis nth_map)
      ultimately show ?thesis using i False len by simp
    qed
  qed
  with True have "read_timetable ?st' tt = put g (cn, sess)"
    by (simp add: read_timetable_def put_def)
  with dist alloc have hold': "holds ?st' tt (put g (cn, sess))"
    by (simp add: holds_def list_all_iff)
  have frame: "\<forall>x. x \<notin> set tt \<longrightarrow> ?st' ! x = st ! x"
  proof (intro allI impI)
    fix x assume "x \<notin> set tt"
    with d have "x \<noteq> ?a" by (metis nth_mem)
    then show "?st' ! x = st ! x" by simp
  qed
  from run hold' frame show ?thesis by simp
qed

lemma forEach_sessions_st_fold:
  assumes "holds st tt g" and "wf_timetable g"
  shows "\<exists>st'. forEach_sessions_st cn tt st ss = Inr st' \<and>
           holds st' tt (foldl put g (map (Pair cn) ss)) \<and>
           length st' = length st \<and> (\<forall>a. a \<notin> set tt \<longrightarrow> st' ! a = st ! a)"
  using assms
proof (induction ss arbitrary: st g)
  case Nil
  then show ?case by simp
next
  case (Cons sess ss)
  from place_session_st_put [OF Cons.prems, of cn sess] obtain st1
    where one: "place_session_st cn tt st sess = Inr st1" "holds st1 tt (put g (cn, sess))"
      "length st1 = length st" "\<forall>a. a \<notin> set tt \<longrightarrow> st1 ! a = st ! a"
    by blast
  from Cons.prems(2) have "wf_timetable (put g (cn, sess))" by (rule wf_put)
  from Cons.IH [OF one(2) this] obtain st2
    where two: "forEach_sessions_st cn tt st1 ss = Inr st2"
      "holds st2 tt (foldl put (put g (cn, sess)) (map (Pair cn) ss))"
      "length st2 = length st1" "\<forall>a. a \<notin> set tt \<longrightarrow> st2 ! a = st1 ! a"
    by blast
  from one two show ?case by simp
qed

lemma forEach_courses_st_fold:
  assumes "holds st tt g" and "wf_timetable g"
  shows "\<exists>st'. forEach_courses_st tt st es = Inr st' \<and>
           holds st' tt (foldl put g (process_order es)) \<and>
           length st' = length st \<and> (\<forall>a. a \<notin> set tt \<longrightarrow> st' ! a = st ! a)"
  using assms
proof (induction es arbitrary: st g)
  case Nil
  then show ?case by (simp add: process_order_def)
next
  case (Cons e es)
  obtain cn ss where e: "e = (cn, ss)" by (cases e)
  from forEach_sessions_st_fold [OF Cons.prems, of cn ss] obtain st1
    where one: "forEach_sessions_st cn tt st ss = Inr st1"
      "holds st1 tt (foldl put g (map (Pair cn) ss))"
      "length st1 = length st" "\<forall>a. a \<notin> set tt \<longrightarrow> st1 ! a = st ! a"
    by blast
  from Cons.prems(2) have "wf_timetable (foldl put g (map (Pair cn) ss))" by (rule wf_foldl_put)
  from Cons.IH [OF one(2) this] obtain st2
    where two: "forEach_courses_st tt st1 es = Inr st2"
      "holds st2 tt (foldl put (foldl put g (map (Pair cn) ss)) (process_order es))"
      "length st2 = length st1" "\<forall>a. a \<notin> set tt \<longrightarrow> st2 ! a = st1 ! a"
    by blast
  from one two show ?case by (simp add: e process_order_def)
qed

lemma new_timetable_holds:
  "holds (snd (new_timetable st)) (fst (new_timetable st)) empty_timetable"
proof -
  let ?n = "length days"
  let ?new = "replicate ?n (replicate (length timeSlots) (None :: cell option))"
  have "map (\<lambda>a. (st @ ?new) ! a) [length st ..< length st + ?n] = ?new"
    by (rule nth_equalityI) (simp_all add: nth_append)
  then show ?thesis
    by (simp add: holds_def new_timetable_def read_timetable_def empty_timetable_def list_all_iff)
qed

lemma group_timetable_st_grid:
  "\<exists>tt st'. group_timetable_st st gc = Inr (tt, st') \<and>
     read_timetable st' tt = group_grid gc \<and>
     (\<forall>a\<in>set tt. a < length st') \<and>
     length st \<le> length st' \<and> (\<forall>a<length st. st' ! a = st ! a)"
proof -
  let ?tt = "fst (new_timetable st)" and ?st0 = "snd (new_timetable st)"
  from forEach_courses_st_fold [OF new_timetable_holds wf_empty_timetable, of st "object_entries gc"]
  obtain st' where loops: "forEach_courses_st ?tt ?st0 (object_entries gc) = Inr st'"
    "holds st' ?tt (group_grid gc)" "length st' = length ?st0"
    "\<forall>a. a \<notin> set ?tt \<longrightarrow> st' ! a = ?st0 ! a"
    unfolding group_grid_def by blast
  have run: "group_timetable_st st gc = Inr (?tt, st')"
    using loops(1) by (simp add: group_timetable_st_def case_prod_beta)
  have old: "st' ! a = st ! a" if "a < length st" for a
  proof -
    from that have "a \<notin> set ?tt" by (simp add: new_timetable_def)
    with loops(4) have "st' ! a = ?st0 ! a" by blast
    with that show ?thesis by (simp add: new_timetable_def nth_append)
  qed
  from loops(3) have "length st \<le> length st'" by (simp add: new_timetable_def)
  with run loops(2) old show ?thesis
    by (auto simp: holds_def list_all_iff)
qed

lemma read_timetable_frame:
  assumes "\<forall>a\<in>set tt. a < n" and "\<forall>a<n. st' ! a = st ! a"
  shows "read_timetable st' tt = read_timetable st tt"
  using assms by (simp add: read_timetable_def)

lemma read_grids_frame:
  assumes "\<forall>e\<in>set out. \<forall>a\<in>set (snd e). a < n" and "\<forall>a<n. st' ! a = st ! a"
  shows "read_grids st' out = read_grids st out"
  using assms by (simp add: read_grids_def read_timetable_def)

lemma map_groups_st_grids:
  "\<exists>out st'. map_groups_st st es = Inr (out, st') \<and>
     read_grids st' out = map (\<lambda>e. (fst e, group_grid (snd e))) es \<and>
     (\<forall>e\<in>set out. \<forall>a\<in>set (snd e). a < length st') \<and>
     length st \<le> length st' \<and> (\<forall>a<length st. st' ! a = st ! a)"
proof (induction es arbitrary: st)
  case Nil
  show ?case by (simp add: read_grids_def)
next
  case (Cons e es)
  obtain g gc where e: "e = (g, gc)" by (cases e)
  from group_timetable_st_grid [of st gc] obtain tt st1
    where one: "group_timetable_st st gc = Inr (tt, st1)" "read_timetable st1 tt = group_grid gc"
      "\<forall>a\<in>set tt. a < length st1" "length st \<le> length st1" "\<forall>a<length st. st1 ! a = st ! a"
    by blast
  from Cons.IH [of st1] obtain out st2
    where rest: "map_groups_st st1 es = Inr (out, st2)"
      "read_grids st2 out = map (\<lambda>e. (fst e, group_grid (snd e))) es"
      "\<forall>e\<in>set out. \<forall>a\<in>set (snd e). a < length st2"
      "length st1 \<le> length st2" "\<forall>a<length st1. st2 ! a = st1 ! a"
    by blast
  have run: "map_groups_st st (e # es) = Inr ((g, tt) # out, st2)"
    using one(1) rest(1) by (simp add: e)
  from read_timetable_frame [OF one(3) rest(5)] one(2)
  have first: "read_timetable st2 tt = group_grid gc" by simp
  have grids: "read_grids st2 ((g, tt) # out) = map (\<lambda>e. (fst e, group_grid (snd e))) (e # es)"
    using first rest(2) by (simp add: read_grids_def e)
  have alloc: "\<forall>e\<in>set ((g, tt) # out). \<forall>a\<in>set (snd e). a < length st2"
    using one(3) rest(3,4) by auto
  have len: "length st \<le> length st2" using one(4) rest(4) by simp
  have frame: "\<forall>a<length st. st2 ! a = st ! a"
    using one(4,5) rest(5) by auto
  from run grids alloc len frame show ?case by blast
qed

lemma build_st_grids:
  "\<exists>out st'. build_st st data = Inr (out, st') \<and>
     build data = Inr (read_grids st' out) \<and>
     (\<forall>e\<in>set out. \<forall>a\<in>set (snd e). a < length st') \<and>
     length st \<le> length st' \<and> (\<forall>a<length st. st' ! a = st ! a)"
proof -
  from map_groups_st_grids [of st "object_entries data"] obtain out st'
    where run: "map_groups_st st (object_entries data) = Inr (out, st')"
      and grids: "read_grids st' out = map (\<lambda>e. (fst e, group_grid (snd e))) (object_entries data)"
      and rest: "\<forall>e\<in>set out. \<forall>a\<in>set (snd e). a < length st'"
        "length st \<le> length st'" "\<forall>a<length st. st' ! a = st ! a"
    by blast
  from run have "build_st st data = Inr (out, st')" by (simp add: build_st_def)
  moreover from grids have "build data = Inr (read_grids st' out)" by (simp add: build_eq)
  ultimately show ?thesis using rest by blast
qed

section \<open>The claims\<close>

text \<open>
  C1. A session whose day or slot is out of range (\<open>day > days\<close>, \<open>slot > slots\<close>,
  \<open>day < 1\<close> or \<open>slot < 1\<close>) is skipped: the loop body returns the grid it was given and
  throws nothing. The construction returns a result for every payload, and it returns the
  same result as on the payload with all out-of-range sessions removed, so no such
  session leaves a cell in any grid.
\<close>

theorem out_of_range_sessions_skipped:
  "(day sess > int (length days) \<or> slot sess > int (length timeSlots) \<or>
    day sess < 1 \<or> slot sess < 1 \<longrightarrow> place_session cn tt sess = Inr tt) \<and>
   (\<exists>out. build data = Inr out) \<and>
   build (drop_out_of_range data) = build data"
proof (intro conjI impI)
  assume "day sess > int (length days) \<or> slot sess > int (length timeSlots) \<or>
    day sess < 1 \<or> slot sess < 1"
  then have "\<not> in_range sess" unfolding in_range_def by linarith
  then show "place_session cn tt sess = Inr tt" by (rule place_session_out_of_range)
next
  show "\<exists>out. build data = Inr out" by (simp add: build_eq)
next
  show "build (drop_out_of_range data) = build data" by (rule build_drop_out_of_range)
qed

theorem out_of_range_sessions_skipped_witness:
  "place_session ''Security'' empty_timetable
     \<lparr>course_type = ''Security_lecture'', day = 6, slot = 1, teacher_id = 1\<rparr> = Inr empty_timetable \<and>
   build [(''1'', [(''Security'',
       [\<lparr>course_type = ''Security_lecture'', day = 6, slot = 1, teacher_id = 1\<rparr>,
        \<lparr>course_type = ''Security_td'', day = 2, slot = 0, teacher_id = 1\<rparr>,
        \<lparr>course_type = ''Security_tp'', day = 3, slot = 4, teacher_id = 2\<rparr>])])] =
   build [(''1'', [(''Security'',
       [\<lparr>course_type = ''Security_tp'', day = 3, slot = 4, teacher_id = 2\<rparr>])])]"
  using out_of_range_sessions_skipped
    [of "\<lparr>course_type = ''Security_lecture'', day = 6, slot = 1, teacher_id = 1\<rparr>"
        "''Security''" empty_timetable
        "[(''1'', [(''Security'',
       [\<lparr>course_type = ''Security_lecture'', day = 6, slot = 1, teacher_id = 1\<rparr>,
        \<lparr>course_type = ''Security_td'', day = 2, slot = 0, teacher_id = 1\<rparr>,
        \<lparr>course_type = ''Security_tp'', day = 3, slot = 4, teacher_id = 2\<rparr>])])]"]
  by (simp add: drop_out_of_range_def in_range_def days_def timeSlots_def)

text \<open>
  C2, as the specification states it, fails when "payload iteration order" is the order
  in which the courses were inserted: with the course \<^verbatim>\<open>Maths\<close> inserted before the course
  \<^verbatim>\<open>101\<close>, both with a session at day 2, slot 2, the cell holds the session of \<^verbatim>\<open>Maths\<close>,
  although the session of \<^verbatim>\<open>101\<close> is the last one of the payload.
\<close>

theorem last_write_counterexample:
  "build [(''1'', [(''Maths'', [\<lparr>course_type = ''Maths_lecture'', day = 2, slot = 2, teacher_id = 3\<rparr>]),
                   (''101'', [\<lparr>course_type = ''101_td'', day = 2, slot = 2, teacher_id = 4\<rparr>])])] =
   Inr [(''1'',
      [[None, None, None, None, None],
       [None, Some \<lparr>courseName = ''Maths'', courseType = ''Maths_lecture'', teacherId = 3\<rparr>,
        None, None, None],
       [None, None, None, None, None],
       [None, None, None, None, None],
       [None, None, None, None, None]])] \<and>
   last (process_order
     [(''Maths'', [\<lparr>course_type = ''Maths_lecture'', day = 2, slot = 2, teacher_id = 3\<rparr>]),
      (''101'', [\<lparr>course_type = ''101_td'', day = 2, slot = 2, teacher_id = 4\<rparr>])]) =
     (''101'', \<lparr>course_type = ''101_td'', day = 2, slot = 2, teacher_id = 4\<rparr>) \<and>
   \<lparr>courseName = ''Maths'', courseType = ''Maths_lecture'', teacherId = 3\<rparr> \<noteq>
   \<lparr>courseName = ''101'', courseType = ''101_td'', teacherId = 4\<rparr>"
  by (simp add: enum_defs grid_defs process_order_def)

text \<open>
  C2, amended. Within a group, when one or more sessions land on an in-range position
  \<open>(d, s)\<close>, the cell there holds exactly the values of the last of them in processing
  order, never a merge and never an error. The processing order is that of
  \<^verbatim>\<open>Object.entries(groupCourses)\<close>: the courses whose name is an array index (a canonical
  decimal integer such as \<^verbatim>\<open>"101"\<close>) first, in ascending numeric order, then all other
  courses in insertion order; within a course the sessions in list order. When no course
  name of the group is an array index, the courses are processed in insertion order.
\<close>

theorem last_write_wins:
  assumes "wf_object data" and "(g, groupCourses) \<in> set data"
    and "d < length days" and "s < length timeSlots"
    and "entries =
           sort_key (\<lambda>kv. dec_val (fst kv)) (filter (\<lambda>kv. is_array_index (fst kv)) groupCourses) @
           filter (\<lambda>kv. \<not> is_array_index (fst kv)) groupCourses"
    and "hits = filter (lands_on d s) (process_order entries)"
    and "hits \<noteq> []"
  shows "(\<exists>out tt. build data = Inr out \<and> map_of out g = Some tt \<and>
           tt ! d ! s = Some \<lparr>courseName = fst (last hits),
                               courseType = course_type (snd (last hits)),
                               teacherId = teacher_id (snd (last hits))\<rparr>) \<and>
         ((\<forall>c\<in>set groupCourses. \<not> is_array_index (fst c)) \<longrightarrow> entries = groupCourses)"
proof (intro conjI impI)
  assume "\<forall>c\<in>set groupCourses. \<not> is_array_index (fst c)"
  then have "object_entries groupCourses = groupCourses" by (rule object_entries_no_index)
  with assms(5) show "entries = groupCourses" by (simp add: object_entries_def)
next
  from assms(5) have entries: "entries = object_entries groupCourses"
    by (simp add: object_entries_def)
  from build_lookup [OF assms(1,2)] obtain out
    where out: "build data = Inr out" "map_of out g = Some (group_grid groupCourses)"
    by blast
  from assms(6,7) have "group_grid groupCourses ! d ! s = Some (cell_of (fst (last hits)) (snd (last hits)))"
    by (simp add: group_grid_cell [OF assms(3,4)] entries)
  with out show "\<exists>out tt. build data = Inr out \<and> map_of out g = Some tt \<and>
           tt ! d ! s = Some \<lparr>courseName = fst (last hits),
                               courseType = course_type (snd (last hits)),
                               teacherId = teacher_id (snd (last hits))\<rparr>"
    by (simp add: cell_of_def)
qed

theorem last_write_wins_witness:
  "\<not> is_array_index ''Maths'' \<and> \<not> is_array_index ''Physics'' \<and> is_array_index ''101'' \<and>
   (\<exists>out tt.
      build [(''1'', [(''Maths'', [\<lparr>course_type = ''Maths_lecture'', day = 2, slot = 2, teacher_id = 3\<rparr>]),
                      (''Physics'', [\<lparr>course_type = ''Physics_td'', day = 2, slot = 2, teacher_id = 4\<rparr>])])]
        = Inr out \<and>
      map_of out ''1'' = Some tt \<and>
      tt ! 1 ! 1 = Some \<lparr>courseName = ''Physics'', courseType = ''Physics_td'', teacherId = 4\<rparr>) \<and>
   (\<exists>out tt.
      build [(''1'', [(''Maths'', [\<lparr>course_type = ''Maths_lecture'', day = 2, slot = 2, teacher_id = 3\<rparr>]),
                      (''101'', [\<lparr>course_type = ''101_td'', day = 2, slot = 2, teacher_id = 4\<rparr>])])]
        = Inr out \<and>
      map_of out ''1'' = Some tt \<and>
      tt ! 1 ! 1 = Some \<lparr>courseName = ''Maths'', courseType = ''Maths_lecture'', teacherId = 3\<rparr>)"
proof -
  let ?m = "\<lparr>course_type = ''Maths_lecture'', day = 2, slot = 2, teacher_id = 3\<rparr>"
  let ?p = "\<lparr>course_type = ''Physics_td'', day = 2, slot = 2, teacher_id = 4\<rparr>"
  let ?q = "\<lparr>course_type = ''101_td'', day = 2, slot = 2, teacher_id = 4\<rparr>"
  let ?gc = "[(''Maths'', [?m]), (''Physics'', [?p])]"
  let ?gc' = "[(''Maths'', [?m]), (''101'', [?q])]"
  have names: "\<not> is_array_index ''Maths''" "\<not> is_array_index ''Physics''" "is_array_index ''101''"
    by (simp_all add: enum_defs)
  have pos: "1 < length days" "1 < length timeSlots"
    by (simp_all add: days_def timeSlots_def)
  have wf: "wf_object [(''1'', ?gc)]" and wf': "wf_object [(''1'', ?gc')]"
    by (simp_all add: wf_object_def)
  have mem: "(''1'', ?gc) \<in> set [(''1'', ?gc)]" and mem': "(''1'', ?gc') \<in> set [(''1'', ?gc')]"
    by simp_all
  have entries: "?gc =
           sort_key (\<lambda>kv. dec_val (fst kv)) (filter (\<lambda>kv. is_array_index (fst kv)) ?gc) @
           filter (\<lambda>kv. \<not> is_array_index (fst kv)) ?gc"
    by (simp add: names)
  have entries': "[(''101'', [?q]), (''Maths'', [?m])] =
           sort_key (\<lambda>kv. dec_val (fst kv)) (filter (\<lambda>kv. is_array_index (fst kv)) ?gc') @
           filter (\<lambda>kv. \<not> is_array_index (fst kv)) ?gc'"
    by (simp add: names)
  have hits: "[(''Maths'', ?m), (''Physics'', ?p)] = filter (lands_on 1 1) (process_order ?gc)"
    by (simp add: process_order_def lands_on_def)
  have hits': "[(''101'', ?q), (''Maths'', ?m)] =
               filter (lands_on 1 1) (process_order [(''101'', [?q]), (''Maths'', [?m])])"
    by (simp add: process_order_def lands_on_def)
  have ne: "[(''Maths'', ?m), (''Physics'', ?p)] \<noteq> []" "[(''101'', ?q), (''Maths'', ?m)] \<noteq> []"
    by simp_all
  from last_write_wins [OF wf mem pos entries hits ne(1)]
  have a: "\<exists>out tt. build [(''1'', ?gc)] = Inr out \<and> map_of out ''1'' = Some tt \<and>
      tt ! 1 ! 1 = Some \<lparr>courseName = ''Physics'', courseType = ''Physics_td'', teacherId = 4\<rparr>"
    by simp
  from last_write_wins [OF wf' mem' pos entries' hits' ne(2)]
  have b: "\<exists>out tt. build [(''1'', ?gc')] = Inr out \<and> map_of out ''1'' = Some tt \<and>
      tt ! 1 ! 1 = Some \<lparr>courseName = ''Maths'', courseType = ''Maths_lecture'', teacherId = 3\<rparr>"
    by simp
  from names a b show ?thesis by (intro conjI)
qed

text \<open>
  C3, as the specification states it, fails: for a course type with two underscores the
  rendered label is the piece between the first and the second underscore, not everything
  after the first.
\<close>

theorem subType_counterexample:
  "subType ''Data_Structures_lecture'' = Some ''Structures'' \<and>
   subType_text ''Data_Structures_lecture'' = ''Structures'' \<and>
   after_first_underscore ''Data_Structures_lecture'' = ''Structures_lecture'' \<and>
   subType_text ''Data_Structures_lecture'' \<noteq> after_first_underscore ''Data_Structures_lecture''"
  by (simp add: subType_text_def subType_def element_at_def after_first_underscore_def)

text \<open>
  C3, amended. The sub-type label \<^verbatim>\<open>courseType.split('_')[1]\<close> is the piece of
  \<open>course_type\<close> between its first underscore and the next one (or the end). When
  \<open>course_type\<close> has exactly one underscore it is everything after that underscore. When
  \<open>course_type\<close> has no underscore the expression is \<^verbatim>\<open>undefined\<close> and the rendered text is
  empty.
\<close>

theorem subType_second_piece:
  "subType_text ct = takeWhile (\<lambda>c. c \<noteq> CHR ''_'') (after_first_underscore ct) \<and>
   (count_list ct (CHR ''_'') = 1 \<longrightarrow>
      subType ct = Some (after_first_underscore ct) \<and> subType_text ct = after_first_underscore ct) \<and>
   (CHR ''_'' \<notin> set ct \<longrightarrow> subType ct = None \<and> subType_text ct = [])"
proof (intro conjI impI)
  show "subType_text ct = takeWhile (\<lambda>c. c \<noteq> CHR ''_'') (after_first_underscore ct)"
    by (rule subType_text_eq)
next
  assume one: "count_list ct (CHR ''_'') = 1"
  from one_underscore_rest [OF one]
  have tw: "takeWhile (\<lambda>c. c \<noteq> CHR ''_'') (after_first_underscore ct) = after_first_underscore ct"
    and mem: "CHR ''_'' \<in> set ct"
    by (auto simp: takeWhile_eq_all_conv)
  from mem tw show "subType ct = Some (after_first_underscore ct)" by (simp add: subType_eq)
  from tw show "subType_text ct = after_first_underscore ct" by (simp add: subType_text_eq)
next
  assume no: "CHR ''_'' \<notin> set ct"
  then show "subType ct = None" by (simp add: subType_eq)
  from no show "subType_text ct = []" by (simp add: subType_text_def subType_eq)
qed

theorem subType_second_piece_witness:
  "count_list ''Security_lecture'' (CHR ''_'') = 1 \<and>
   subType ''Security_lecture'' = Some ''lecture'' \<and> subType_text ''Security_lecture'' = ''lecture'' \<and>
   CHR ''_'' \<notin> set ''Security'' \<and> subType ''Security'' = None \<and> subType_text ''Security'' = []"
proof -
  have one: "count_list ''Security_lecture'' (CHR ''_'') = 1" by simp
  have no: "CHR ''_'' \<notin> set ''Security''" by simp
  have rest: "after_first_underscore ''Security_lecture'' = ''lecture''"
    by (simp add: after_first_underscore_def)
  from subType_second_piece [of "''Security_lecture''"] one rest
  have "subType ''Security_lecture'' = Some ''lecture'' \<and> subType_text ''Security_lecture'' = ''lecture''"
    by simp
  moreover from subType_second_piece [of "''Security''"] no
  have "subType ''Security'' = None \<and> subType_text ''Security'' = []"
    by blast
  ultimately show ?thesis using one no by blast
qed

text \<open>
  C5, as the specification states it, fails: the cell written at \<open>[0][0]\<close> has the three
  properties of lines 27 to 29 and no property \<^verbatim>\<open>subType\<close>; reading \<^verbatim>\<open>subType\<close> from it
  gives \<^verbatim>\<open>undefined\<close>, not \<^verbatim>\<open>"lecture"\<close>.
\<close>

theorem cell_subType_counterexample:
  "build [(''1'', [(''Security'',
      [\<lparr>course_type = ''Security_lecture'', day = 1, slot = 1, teacher_id = 1\<rparr>])])] =
   Inr [(''1'',
      [[Some \<lparr>courseName = ''Security'', courseType = ''Security_lecture'', teacherId = 1\<rparr>,
        None, None, None, None],
       [None, None, None, None, None],
       [None, None, None, None, None],
       [None, None, None, None, None],
       [None, None, None, None, None]])] \<and>
   cell_keys \<lparr>courseName = ''Security'', courseType = ''Security_lecture'', teacherId = 1\<rparr> =
     [''courseName'', ''courseType'', ''teacherId''] \<and>
   cell_get \<lparr>courseName = ''Security'', courseType = ''Security_lecture'', teacherId = 1\<rparr> ''subType'' =
     None \<and>
   cell_get \<lparr>courseName = ''Security'', courseType = ''Security_lecture'', teacherId = 1\<rparr> ''subType'' \<noteq>
     Some (JString ''lecture'')"
  by (simp add: enum_defs grid_defs cell_keys_def cell_get_def)

text \<open>
  C5, amended. For the payload with the single group \<^verbatim>\<open>"1"\<close>, course \<^verbatim>\<open>"Security"\<close> and one
  session of type \<^verbatim>\<open>"Security_lecture"\<close> at day 1, slot 1 with teacher 1, the output is one
  grid for group \<^verbatim>\<open>"1"\<close>. Its cell \<open>[0][0]\<close> is the object with exactly the properties
  courseName \<^verbatim>\<open>"Security"\<close>, courseType \<^verbatim>\<open>"Security_lecture"\<close> and teacherId 1, and the other
  24 cells are empty. The sub-type \<^verbatim>\<open>"lecture"\<close> is not stored in the cell: it is what line 58
  computes from the cell's courseType when the cell is rendered.
\<close>

theorem security_scenario:
  "build [(''1'', [(''Security'',
      [\<lparr>course_type = ''Security_lecture'', day = 1, slot = 1, teacher_id = 1\<rparr>])])] =
   Inr [(''1'',
      [[Some \<lparr>courseName = ''Security'', courseType = ''Security_lecture'', teacherId = 1\<rparr>,
        None, None, None, None],
       [None, None, None, None, None],
       [None, None, None, None, None],
       [None, None, None, None, None],
       [None, None, None, None, None]])] \<and>
   cell_keys \<lparr>courseName = ''Security'', courseType = ''Security_lecture'', teacherId = 1\<rparr> =
     [''courseName'', ''courseType'', ''teacherId''] \<and>
   cell_get \<lparr>courseName = ''Security'', courseType = ''Security_lecture'', teacherId = 1\<rparr> ''courseName'' =
     Some (JString ''Security'') \<and>
   cell_get \<lparr>courseName = ''Security'', courseType = ''Security_lecture'', teacherId = 1\<rparr> ''courseType'' =
     Some (JString ''Security_lecture'') \<and>
   cell_get \<lparr>courseName = ''Security'', courseType = ''Security_lecture'', teacherId = 1\<rparr> ''teacherId'' =
     Some (JNumber 1) \<and>
   subType (courseType \<lparr>courseName = ''Security'', courseType = ''Security_lecture'', teacherId = 1\<rparr>) =
     Some ''lecture'' \<and>
   subType_text (courseType \<lparr>courseName = ''Security'', courseType = ''Security_lecture'', teacherId = 1\<rparr>) =
     ''lecture''"
  by (simp add: enum_defs grid_defs cell_keys_def cell_get_def subType_text_def subType_def element_at_def)

text \<open>
  C8, as the specification states it, fails: a payload whose group \<^verbatim>\<open>"2"\<close> was inserted
  before its group \<^verbatim>\<open>"1"\<close> is rendered with group \<^verbatim>\<open>"1"\<close> first.
\<close>

theorem group_order_counterexample:
  "build [(''2'', []), (''1'', [])] = Inr [(''1'', empty_timetable), (''2'', empty_timetable)] \<and>
   map fst [(''1'', empty_timetable), (''2'', empty_timetable)] \<noteq>
   map fst [(''2'', [] :: group_courses), (''1'', [])]"
  by (simp add: enum_defs build_def group_timetable_def)

text \<open>
  C8, amended. The output lists the groups in the order of \<^verbatim>\<open>Object.entries\<close>: the group
  keys that are array indices (canonical decimal integers such as \<^verbatim>\<open>"1"\<close> and
  \<^verbatim>\<open>"2"\<close>) first, in ascending numeric order, then all other keys in insertion order.
  The output order is the insertion order when no group key is an array index, and also
  when the array-index keys were inserted first and in ascending order.
\<close>

theorem groups_in_enumeration_order:
  "\<exists>out. build data = Inr out \<and>
     map fst out = sort_key dec_val (filter is_array_index (map fst data)) @
                   filter (\<lambda>k. \<not> is_array_index k) (map fst data) \<and>
     ((\<forall>k\<in>set (map fst data). \<not> is_array_index k) \<longrightarrow> map fst out = map fst data) \<and>
     (sorted (map dec_val (filter is_array_index (map fst data))) \<and>
      map fst data = filter is_array_index (map fst data) @
                     filter (\<lambda>k. \<not> is_array_index k) (map fst data)
        \<longrightarrow> map fst out = map fst data)"
proof -
  let ?out = "map (\<lambda>e. (fst e, group_grid (snd e))) (object_entries data)"
  let ?ks = "map fst data"
  have keys: "map fst ?out = sort_key dec_val (filter is_array_index ?ks) @
                   filter (\<lambda>k. \<not> is_array_index k) ?ks"
    by (simp add: o_def keys_object_entries)
  have none: "map fst ?out = ?ks" if "\<forall>k\<in>set ?ks. \<not> is_array_index k"
  proof -
    from that have "filter is_array_index ?ks = []" "filter (\<lambda>k. \<not> is_array_index k) ?ks = ?ks"
      by (simp_all add: filter_empty_conv filter_id_conv)
    with keys show ?thesis by simp
  qed
  have asc: "map fst ?out = ?ks"
    if "sorted (map dec_val (filter is_array_index ?ks)) \<and>
        ?ks = filter is_array_index ?ks @ filter (\<lambda>k. \<not> is_array_index k) ?ks"
  proof -
    from that have "sort_key dec_val (filter is_array_index ?ks) = filter is_array_index ?ks"
      by (simp add: sort_key_id_if_sorted)
    with keys that show ?thesis by simp
  qed
  from keys none asc show ?thesis
    by (intro exI [of _ ?out]) (simp only: build_eq, blast)
qed

theorem groups_in_enumeration_order_witness:
  "\<not> is_array_index ''L3-A'' \<and> \<not> is_array_index ''L3-B'' \<and>
   (\<exists>out. build [(''L3-A'', []), (''L3-B'', [])] = Inr out \<and> map fst out = [''L3-A'', ''L3-B'']) \<and>
   sorted (map dec_val (filter is_array_index (map fst [(''1'', [] :: group_courses), (''2'', []), (''x'', [])]))) \<and>
   (\<exists>out. build [(''1'', []), (''2'', []), (''x'', [])] = Inr out \<and> map fst out = [''1'', ''2'', ''x''])"
proof -
  let ?A = "[(''L3-A'', [] :: group_courses), (''L3-B'', [])]"
  let ?B = "[(''1'', [] :: group_courses), (''2'', []), (''x'', [])]"
  have names: "\<not> is_array_index ''L3-A''" "\<not> is_array_index ''L3-B''"
    by (simp_all add: enum_defs)
  then have a: "\<forall>k\<in>set (map fst ?A). \<not> is_array_index k"
    by simp
  have idx: "is_array_index ''1''" "is_array_index ''2''" "\<not> is_array_index ''x''"
    by (simp_all add: enum_defs)
  have val: "dec_val ''1'' = 1" "dec_val ''2'' = 2"
    by (simp_all add: enum_defs)
  have b: "sorted (map dec_val (filter is_array_index (map fst ?B))) \<and>
           map fst ?B = filter is_array_index (map fst ?B) @
                        filter (\<lambda>k. \<not> is_array_index k) (map fst ?B)"
    by (simp add: idx val)
  from groups_in_enumeration_order [of ?A] obtain outA
    where A: "build ?A = Inr outA"
      "(\<forall>k\<in>set (map fst ?A). \<not> is_array_index k) \<longrightarrow> map fst outA = map fst ?A"
    by blast
  from A(2) a have "map fst outA = map fst ?A" by (rule mp)
  with A(1) have resA: "\<exists>out. build ?A = Inr out \<and> map fst out = [''L3-A'', ''L3-B'']"
    by simp
  from groups_in_enumeration_order [of ?B] obtain outB
    where B: "build ?B = Inr outB"
      "sorted (map dec_val (filter is_array_index (map fst ?B))) \<and>
       map fst ?B = filter is_array_index (map fst ?B) @
                    filter (\<lambda>k. \<not> is_array_index k) (map fst ?B)
         \<longrightarrow> map fst outB = map fst ?B"
    by blast
  from B(2) b have "map fst outB = map fst ?B" by (rule mp)
  with B(1) have resB: "\<exists>out. build ?B = Inr out \<and> map fst out = [''1'', ''2'', ''x'']"
    by simp
  from names resA b resB show ?thesis by blast
qed

text \<open>
  C4. The output has exactly one grid per group key of the payload: the keys of the
  output are pairwise distinct, they are the keys of the payload, and there are as many
  entries as groups. A group with no course, with courses without sessions, or with only
  out-of-range sessions gets the grid whose 25 cells are all empty.
\<close>

theorem one_grid_per_group:
  assumes "wf_object data"
  shows "\<exists>out. build data = Inr out \<and> distinct (map fst out) \<and>
           set (map fst out) = set (map fst data) \<and> length out = length data \<and>
           (\<forall>e\<in>set data.
              (\<forall>c\<in>set (snd e). \<forall>sess\<in>set (snd c). \<not> in_range sess) \<longrightarrow>
              map_of out (fst e) = Some (replicate 5 (replicate 5 None)))"
proof -
  let ?out = "map (\<lambda>e. (fst e, group_grid (snd e))) (object_entries data)"
  have keys: "map fst ?out = map fst (object_entries data)"
    by (simp add: o_def)
  have "distinct (map fst ?out)"
    using assms by (simp only: keys wf_object_entries)
  moreover have "set (map fst ?out) = set (map fst data)"
    by (simp only: keys keys_build_set)
  moreover have "length ?out = length data"
    by (simp add: length_object_entries)
  moreover have "map_of ?out (fst e) = Some (replicate 5 (replicate 5 None))"
    if e: "e \<in> set data" and out: "\<forall>c\<in>set (snd e). \<forall>sess\<in>set (snd c). \<not> in_range sess" for e
  proof -
    from e have "(fst e, snd e) \<in> set data" by simp
    from build_lookup [OF assms this]
    have "map_of ?out (fst e) = Some (group_grid (snd e))"
      by (simp add: build_eq)
    with out show ?thesis
      by (simp add: group_grid_all_out_of_range empty_timetable_literal)
  qed
  ultimately show ?thesis
    by (intro exI [of _ ?out]) (simp only: build_eq, blast)
qed

theorem one_grid_per_group_witness:
  "wf_object [(''1'', [] :: group_courses), (''2'', [(''Maths'', [])]),
              (''3'', [(''Maths'', [\<lparr>course_type = ''Maths_td'', day = 6, slot = 1, teacher_id = 2\<rparr>])])] \<and>
   (\<exists>out. build [(''1'', []), (''2'', [(''Maths'', [])]),
              (''3'', [(''Maths'', [\<lparr>course_type = ''Maths_td'', day = 6, slot = 1, teacher_id = 2\<rparr>])])] = Inr out \<and>
      distinct (map fst out) \<and> set (map fst out) = {''1'', ''2'', ''3''} \<and> length out = 3 \<and>
      map_of out ''1'' = Some (replicate 5 (replicate 5 None)) \<and>
      map_of out ''2'' = Some (replicate 5 (replicate 5 None)) \<and>
      map_of out ''3'' = Some (replicate 5 (replicate 5 None)))"
proof -
  let ?D = "[(''1'', [] :: group_courses), (''2'', [(''Maths'', [])]),
              (''3'', [(''Maths'', [\<lparr>course_type = ''Maths_td'', day = 6, slot = 1, teacher_id = 2\<rparr>])])]"
  have wf: "wf_object ?D" by (simp add: wf_object_def)
  from one_grid_per_group [OF wf] obtain out
    where out: "build ?D = Inr out" "distinct (map fst out)" "set (map fst out) = set (map fst ?D)"
      "length out = length ?D"
      and empty: "\<forall>e\<in>set ?D.
              (\<forall>c\<in>set (snd e). \<forall>sess\<in>set (snd c). \<not> in_range sess) \<longrightarrow>
              map_of out (fst e) = Some (replicate 5 (replicate 5 None))"
    by blast
  from empty have "map_of out ''1'' = Some (replicate 5 (replicate 5 None))"
    "map_of out ''2'' = Some (replicate 5 (replicate 5 None))"
    "map_of out ''3'' = Some (replicate 5 (replicate 5 None))"
    by (simp_all add: in_range_def length_days)
  with out wf show ?thesis
    by (intro conjI exI [of _ out]) simp_all
qed

text \<open>
  C6. Grid construction is deterministic. A render started in any store returns; a second
  render of the same payload, started in the store the first one left behind, returns the
  same groups in the same order with grids that agree cell for cell with those of the
  first; the second render leaves the grids of the first as they were; and a render of
  the same payload started in any other store gives the same grids again. The grids are
  those of \<open>build\<close>, which does not mention the store.
\<close>

theorem build_deterministic:
  "\<exists>out1 st1 out2 st2 out3 st3.
     build_st st data = Inr (out1, st1) \<and>
     build_st st1 data = Inr (out2, st2) \<and>
     build_st other data = Inr (out3, st3) \<and>
     map fst out2 = map fst out1 \<and>
     read_grids st2 out2 = read_grids st1 out1 \<and>
     read_grids st2 out1 = read_grids st1 out1 \<and>
     read_grids st3 out3 = read_grids st1 out1 \<and>
     build data = Inr (read_grids st1 out1)"
proof -
  from build_st_grids [of st data] obtain out1 st1
    where r1: "build_st st data = Inr (out1, st1)" "build data = Inr (read_grids st1 out1)"
      "\<forall>e\<in>set out1. \<forall>a\<in>set (snd e). a < length st1"
    by blast
  from build_st_grids [of st1 data] obtain out2 st2
    where r2: "build_st st1 data = Inr (out2, st2)" "build data = Inr (read_grids st2 out2)"
      "\<forall>a<length st1. st2 ! a = st1 ! a"
    by blast
  from build_st_grids [of other data] obtain out3 st3
    where r3: "build_st other data = Inr (out3, st3)" "build data = Inr (read_grids st3 out3)"
    by blast
  from r1(2) r2(2) have same: "read_grids st2 out2 = read_grids st1 out1" by simp
  then have "map fst (read_grids st2 out2) = map fst (read_grids st1 out1)" by simp
  then have keys: "map fst out2 = map fst out1" by (simp add: read_grids_def o_def)
  from r1(3) r2(3) have kept: "read_grids st2 out1 = read_grids st1 out1"
    by (rule read_grids_frame)
  from r1(2) r3(2) have indep: "read_grids st3 out3 = read_grids st1 out1" by simp
  from r1(1,2) r2(1) r3(1) keys same kept indep show ?thesis by blast
qed

text \<open>
  C7. The calendar has 5 days and 5 slots. Every grid starts as 5 rows of 5 empty cells
  (line 16), every write of the loop keeps a 5 by 5 grid a 5 by 5 grid, so for every
  payload every grid of the output has exactly 5 rows of 5 columns, and each of its
  cells is empty or holds one cell value.
\<close>

theorem grid_dimensions:
  "length days = 5 \<and> length timeSlots = 5 \<and>
   empty_timetable = replicate 5 (replicate 5 None) \<and>
   group_timetable groupCourses = forEach_courses empty_timetable (object_entries groupCourses) \<and>
   (wf_timetable tt \<longrightarrow> (\<exists>tt'. place_session cn tt sess = Inr tt' \<and> wf_timetable tt')) \<and>
   (\<exists>out. build data = Inr out \<and>
      (\<forall>e\<in>set out.
         length (snd e) = 5 \<and> (\<forall>row\<in>set (snd e). length row = 5) \<and>
         (\<forall>d<5. \<forall>s<5. snd e ! d ! s = None \<or> (\<exists>!c. snd e ! d ! s = Some c))))"
proof (intro conjI)
  show "length days = 5" by (rule length_days)
  show "length timeSlots = 5" by (rule length_timeSlots)
  show "empty_timetable = replicate 5 (replicate 5 None)" by (rule empty_timetable_literal)
  show "group_timetable groupCourses = forEach_courses empty_timetable (object_entries groupCourses)"
    by (rule group_timetable_def)
  show "wf_timetable tt \<longrightarrow> (\<exists>tt'. place_session cn tt sess = Inr tt' \<and> wf_timetable tt')"
    by (simp add: place_session_put wf_put)
  let ?out = "map (\<lambda>e. (fst e, group_grid (snd e))) (object_entries data)"
  have "length (snd e) = 5 \<and> (\<forall>row\<in>set (snd e). length row = 5) \<and>
         (\<forall>d<5. \<forall>s<5. snd e ! d ! s = None \<or> (\<exists>!c. snd e ! d ! s = Some c))"
    if "e \<in> set ?out" for e
  proof -
    from that obtain gc where "snd e = group_grid gc" by auto
    with group_grid_shape [of gc] show ?thesis
      by (simp add: cell_none_or_one)
  qed
  then have "\<forall>e\<in>set ?out. length (snd e) = 5 \<and> (\<forall>row\<in>set (snd e). length row = 5) \<and>
         (\<forall>d<5. \<forall>s<5. snd e ! d ! s = None \<or> (\<exists>!c. snd e ! d ! s = Some c))"
    by (rule ballI)
  with build_eq [of data]
  show "\<exists>out. build data = Inr out \<and>
      (\<forall>e\<in>set out.
         length (snd e) = 5 \<and> (\<forall>row\<in>set (snd e). length row = 5) \<and>
         (\<forall>d<5. \<forall>s<5. snd e ! d ! s = None \<or> (\<exists>!c. snd e ! d ! s = Some c)))"
    by (intro exI [of _ ?out] conjI)
qed

theorem grid_dimensions_witness:
  "wf_timetable empty_timetable \<and>
   (\<exists>tt'. place_session ''Security'' empty_timetable
            \<lparr>course_type = ''Security_lecture'', day = 1, slot = 1, teacher_id = 1\<rparr> = Inr tt' \<and>
          wf_timetable tt') \<and>
   (\<exists>tt. build [(''1'', [(''Security'',
               [\<lparr>course_type = ''Security_lecture'', day = 1, slot = 1, teacher_id = 1\<rparr>])])] =
            Inr [(''1'', tt)] \<and>
      length tt = 5 \<and> length (tt ! 0) = 5 \<and> length (tt ! 4) = 5 \<and>
      (\<exists>!c. tt ! 0 ! 0 = Some c) \<and> tt ! 4 ! 4 = None)"
proof -
  let ?sess = "\<lparr>course_type = ''Security_lecture'', day = 1, slot = 1, teacher_id = 1\<rparr>"
  let ?D = "[(''1'', [(''Security'', [?sess])])]"
  let ?c = "\<lparr>courseName = ''Security'', courseType = ''Security_lecture'', teacherId = 1\<rparr>"
  let ?tt = "[[Some ?c, None, None, None, None],
       [None, None, None, None, None],
       [None, None, None, None, None],
       [None, None, None, None, None],
       [None, None, None, None, None]]"
  note inst = grid_dimensions [of "[]" empty_timetable "''Security''" ?sess ?D]
  have wf: "wf_timetable empty_timetable"
    by (simp add: wf_timetable_def empty_timetable_def list_all_iff)
  from inst wf have step: "\<exists>tt'. place_session ''Security'' empty_timetable ?sess = Inr tt' \<and> wf_timetable tt'"
    by blast
  have grid: "build ?D = Inr [(''1'', ?tt)]"
    by (simp add: enum_defs grid_defs)
  from inst obtain out where out: "build ?D = Inr out"
    "\<forall>e\<in>set out.
         length (snd e) = 5 \<and> (\<forall>row\<in>set (snd e). length row = 5) \<and>
         (\<forall>d<5. \<forall>s<5. snd e ! d ! s = None \<or> (\<exists>!c. snd e ! d ! s = Some c))"
    by blast
  from out(1) grid have eq: "out = [(''1'', ?tt)]" by simp
  from out(2) have shape: "length ?tt = 5" "\<forall>row\<in>set ?tt. length row = 5"
    and one: "\<forall>d<5. \<forall>s<5. ?tt ! d ! s = None \<or> (\<exists>!c. ?tt ! d ! s = Some c)"
    unfolding eq by simp_all
  from shape(2) have rows: "length (?tt ! 0) = 5" "length (?tt ! 4) = 5" by simp_all
  from one have "?tt ! 0 ! 0 = None \<or> (\<exists>!c. ?tt ! 0 ! 0 = Some c)" by simp
  then have uniq: "\<exists>!c. ?tt ! 0 ! 0 = Some c" by simp
  have last: "?tt ! 4 ! 4 = None" by simp
  from grid shape(1) rows uniq last
  have res: "\<exists>tt. build ?D = Inr [(''1'', tt)] \<and>
      length tt = 5 \<and> length (tt ! 0) = 5 \<and> length (tt ! 4) = 5 \<and>
      (\<exists>!c. tt ! 0 ! 0 = Some c) \<and> tt ! 4 ! 4 = None"
    by (intro exI [of _ ?tt] conjI)
  from wf step res show ?thesis by (intro conjI)
qed

text \<open>
  C9. Cell soundness: for a group \<open>g\<close> with schedule \<open>groupCourses\<close>, every non-empty cell
  at an in-range position \<open>(d, s)\<close> of the grid of \<open>g\<close> comes from a session of one of the
  courses of \<open>groupCourses\<close> with \<open>day = d + 1\<close> and \<open>slot = s + 1\<close>, and the cell's course
  name, course type and teacher are those of that course and session.
\<close>

theorem cell_soundness:
  assumes "wf_object data" and "(g, groupCourses) \<in> set data"
    and "d < length days" and "s < length timeSlots"
  shows "\<exists>out tt. build data = Inr out \<and> map_of out g = Some tt \<and>
           (\<forall>c. tt ! d ! s = Some c \<longrightarrow>
              (\<exists>e\<in>set groupCourses. \<exists>sess\<in>set (snd e).
                 day sess = int d + 1 \<and> slot sess = int s + 1 \<and>
                 courseName c = fst e \<and> courseType c = course_type sess \<and>
                 teacherId c = teacher_id sess))"
proof -
  let ?hits = "filter (lands_on d s) (process_order (object_entries groupCourses))"
  from build_lookup [OF assms(1,2)] obtain out
    where out: "build data = Inr out" "map_of out g = Some (group_grid groupCourses)"
    by blast
  have "\<exists>e\<in>set groupCourses. \<exists>sess\<in>set (snd e).
                 day sess = int d + 1 \<and> slot sess = int s + 1 \<and>
                 courseName c = fst e \<and> courseType c = course_type sess \<and>
                 teacherId c = teacher_id sess"
    if c: "group_grid groupCourses ! d ! s = Some c" for c
  proof -
    from c have ne: "?hits \<noteq> []" and cell: "c = cell_of (fst (last ?hits)) (snd (last ?hits))"
      by (simp_all add: group_grid_cell [OF assms(3,4)] split: if_splits)
    from ne have "last ?hits \<in> set ?hits" by (rule last_in_set)
    then have mem: "last ?hits \<in> set (process_order (object_entries groupCourses))"
      and land: "lands_on d s (last ?hits)"
      by simp_all
    from mem obtain ss where "(fst (last ?hits), ss) \<in> set groupCourses" "snd (last ?hits) \<in> set ss"
      by (auto simp: set_process_order set_object_entries)
    moreover from land have "day (snd (last ?hits)) = int d + 1" "slot (snd (last ?hits)) = int s + 1"
      by (simp_all add: lands_on_def)
    ultimately show ?thesis
      using cell by (force simp: cell_of_def)
  qed
  with out show ?thesis by blast
qed

theorem cell_soundness_witness:
  "\<exists>out tt. build [(''1'', [(''Security'',
                 [\<lparr>course_type = ''Security_lecture'', day = 1, slot = 2, teacher_id = 7\<rparr>])])] = Inr out \<and>
     map_of out ''1'' = Some tt \<and>
     tt ! 0 ! 1 = Some \<lparr>courseName = ''Security'', courseType = ''Security_lecture'', teacherId = 7\<rparr> \<and>
     (\<exists>e sess. e \<in> set [(''Security'', [\<lparr>course_type = ''Security_lecture'', day = 1, slot = 2, teacher_id = 7\<rparr>])] \<and>
          sess \<in> set (snd e) \<and>
          day sess = 1 \<and> slot sess = 2 \<and> fst e = ''Security'' \<and>
          course_type sess = ''Security_lecture'' \<and> teacher_id sess = 7)"
proof -
  let ?gc = "[(''Security'', [\<lparr>course_type = ''Security_lecture'', day = 1, slot = 2, teacher_id = 7\<rparr>])]"
  let ?D = "[(''1'', ?gc)]"
  let ?c = "\<lparr>courseName = ''Security'', courseType = ''Security_lecture'', teacherId = 7\<rparr>"
  have grid: "build ?D = Inr [(''1'',
      [[None, Some ?c, None, None, None],
       [None, None, None, None, None],
       [None, None, None, None, None],
       [None, None, None, None, None],
       [None, None, None, None, None]])]"
    by (simp add: enum_defs grid_defs)
  have "wf_object ?D" by (simp add: wf_object_def)
  moreover have "(''1'', ?gc) \<in> set ?D" by simp
  moreover have "0 < length days" "1 < length timeSlots" by (simp_all add: length_days length_timeSlots)
  ultimately obtain out tt where out: "build ?D = Inr out" "map_of out ''1'' = Some tt"
    and sound: "\<forall>c. tt ! 0 ! 1 = Some c \<longrightarrow>
              (\<exists>e\<in>set ?gc. \<exists>sess\<in>set (snd e).
                 day sess = int 0 + 1 \<and> slot sess = int 1 + 1 \<and>
                 courseName c = fst e \<and> courseType c = course_type sess \<and>
                 teacherId c = teacher_id sess)"
    using cell_soundness [of ?D "''1''" ?gc 0 1] by blast
  from out grid have cell: "tt ! 0 ! 1 = Some ?c" by auto
  with sound have "\<exists>e\<in>set ?gc. \<exists>sess\<in>set (snd e).
                 day sess = int 0 + 1 \<and> slot sess = int 1 + 1 \<and>
                 courseName ?c = fst e \<and> courseType ?c = course_type sess \<and>
                 teacherId ?c = teacher_id sess"
    by blast
  then have "\<exists>e sess. e \<in> set ?gc \<and> sess \<in> set (snd e) \<and>
          day sess = 1 \<and> slot sess = 2 \<and> fst e = ''Security'' \<and>
          course_type sess = ''Security_lecture'' \<and> teacher_id sess = 7"
    by simp
  with out cell show ?thesis by blast
qed

text \<open>
  C10. Group isolation: when two payloads give a group \<open>g\<close> the same schedule, both
  constructions return and the grid of \<open>g\<close> is the same in both outputs, whatever the
  other groups of the two payloads are.
\<close>

theorem group_isolation:
  assumes "wf_object data1" and "wf_object data2"
    and "map_of data1 g = Some groupCourses" and "map_of data2 g = Some groupCourses"
  shows "\<exists>out1 out2 tt. build data1 = Inr out1 \<and> build data2 = Inr out2 \<and>
           map_of out1 g = Some tt \<and> map_of out2 g = Some tt"
proof -
  from assms(3) have "(g, groupCourses) \<in> set data1" by (rule map_of_SomeD)
  from build_lookup [OF assms(1) this] obtain out1
    where o1: "build data1 = Inr out1" "map_of out1 g = Some (group_grid groupCourses)" by blast
  from assms(4) have "(g, groupCourses) \<in> set data2" by (rule map_of_SomeD)
  from build_lookup [OF assms(2) this] obtain out2
    where o2: "build data2 = Inr out2" "map_of out2 g = Some (group_grid groupCourses)" by blast
  from o1 o2 show ?thesis by blast
qed

theorem group_isolation_witness:
  "wf_object [(''1'', [(''Security'', [\<lparr>course_type = ''Security_lecture'', day = 1, slot = 1, teacher_id = 1\<rparr>])]),
              (''2'', [(''Physics'', [\<lparr>course_type = ''Physics_td'', day = 2, slot = 5, teacher_id = 5\<rparr>])])] \<and>
   wf_object [(''A'', [(''Maths'', [\<lparr>course_type = ''Maths_lecture'', day = 1, slot = 1, teacher_id = 9\<rparr>])]),
              (''1'', [(''Security'', [\<lparr>course_type = ''Security_lecture'', day = 1, slot = 1, teacher_id = 1\<rparr>])])] \<and>
   (\<exists>out1 out2 tt.
      build [(''1'', [(''Security'', [\<lparr>course_type = ''Security_lecture'', day = 1, slot = 1, teacher_id = 1\<rparr>])]),
             (''2'', [(''Physics'', [\<lparr>course_type = ''Physics_td'', day = 2, slot = 5, teacher_id = 5\<rparr>])])] = Inr out1 \<and>
      build [(''A'', [(''Maths'', [\<lparr>course_type = ''Maths_lecture'', day = 1, slot = 1, teacher_id = 9\<rparr>])]),
             (''1'', [(''Security'', [\<lparr>course_type = ''Security_lecture'', day = 1, slot = 1, teacher_id = 1\<rparr>])])] = Inr out2 \<and>
      map_of out1 ''1'' = Some tt \<and> map_of out2 ''1'' = Some tt)"
proof -
  let ?gc = "[(''Security'', [\<lparr>course_type = ''Security_lecture'', day = 1, slot = 1, teacher_id = 1\<rparr>])]"
  let ?D1 = "[(''1'', ?gc),
              (''2'', [(''Physics'', [\<lparr>course_type = ''Physics_td'', day = 2, slot = 5, teacher_id = 5\<rparr>])])]"
  let ?D2 = "[(''A'', [(''Maths'', [\<lparr>course_type = ''Maths_lecture'', day = 1, slot = 1, teacher_id = 9\<rparr>])]),
              (''1'', ?gc)]"
  have wf: "wf_object ?D1" "wf_object ?D2" by (simp_all add: wf_object_def)
  have look: "map_of ?D1 ''1'' = Some ?gc" "map_of ?D2 ''1'' = Some ?gc" by simp_all
  from group_isolation [OF wf look] wf show ?thesis by blast
qed

end
